theory Spec2Isabelle
  imports Complex_Main "HOL-Library.Char_ord" "HOL-Library.List_Lexorder" "HOL-Library.Multiset"
begin

section \<open>Strings as the program uses them\<close>

text \<open>
  Python strings are modelled as \<open>string\<close> (a list of characters). The program only
  ever tests and rewrites ASCII characters, so \<open>str.strip\<close>, \<open>str.upper\<close> and
  \<open>str.lower\<close> are modelled on ASCII: the white space of \<open>str.isspace\<close> below 128 is
  the codes 9 to 13 and 28 to 32.
\<close>

definition isspace :: "char \<Rightarrow> bool" where
  "isspace c = (let n = (of_char c :: nat) in (9 \<le> n \<and> n \<le> 13) \<or> (28 \<le> n \<and> n \<le> 32))"

definition islower :: "char \<Rightarrow> bool" where
  "islower c = (let n = (of_char c :: nat) in 97 \<le> n \<and> n \<le> 122)"

definition isupper :: "char \<Rightarrow> bool" where
  "isupper c = (let n = (of_char c :: nat) in 65 \<le> n \<and> n \<le> 90)"

definition upper_char :: "char \<Rightarrow> char" where
  "upper_char c = (if islower c then char_of ((of_char c :: nat) - 32) else c)"

definition lower_char :: "char \<Rightarrow> char" where
  "lower_char c = (if isupper c then char_of ((of_char c :: nat) + 32) else c)"

definition upper :: "string \<Rightarrow> string" where
  "upper s = map upper_char s"

definition lower :: "string \<Rightarrow> string" where
  "lower s = map lower_char s"

definition lstrip :: "string \<Rightarrow> string" where
  "lstrip s = dropWhile isspace s"

definition rstrip :: "string \<Rightarrow> string" where
  "rstrip s = rev (dropWhile isspace (rev s))"

definition strip :: "string \<Rightarrow> string" where
  "strip s = rstrip (lstrip s)"

definition startswith :: "string \<Rightarrow> string \<Rightarrow> bool" where
  "startswith s p = (take (length p) s = p)"

definition endswith :: "string \<Rightarrow> string \<Rightarrow> bool" where
  "endswith s p = (length p \<le> length s \<and> drop (length s - length p) s = p)"

text \<open>\<open>contains s p\<close> is Python's \<open>p in s\<close> on strings.\<close>

fun contains :: "string \<Rightarrow> string \<Rightarrow> bool" where
  "contains [] p = (p = [])"
| "contains (c # s) p = (startswith (c # s) p \<or> contains s p)"



section \<open>Numbers and their renderings\<close>

text \<open>
  Python numbers (\<open>int\<close> and \<open>float\<close>) are modelled by exact rationals: the
  thresholds, the scaling by 100 and the two-decimal renderings of the program are
  then exact, and a float's rounding error is left out of the model. A value read from
  the provider is \<open>None\<close>, a number or a string.
\<close>

datatype pyval = PNone | PNum rat | PStr string

type_synonym exn = string

text \<open>Decimal digits of an integer that is not negative.\<close>

definition digit_char :: "int \<Rightarrow> char" where
  "digit_char d = char_of (48 + d)"

function str_nat :: "int \<Rightarrow> string" where
  "str_nat n = (if n < 10 then [digit_char n] else str_nat (n div 10) @ [digit_char (n mod 10)])"
  by pat_completeness auto
termination
  by (relation "measure nat") auto

declare str_nat.simps [simp del]

definition str_int :: "int \<Rightarrow> string" where
  "str_int i = (if i < 0 then CHR ''-'' # str_nat (- i) else str_nat i)"

definition pad2 :: "int \<Rightarrow> string" where
  "pad2 n = (if n < 10 then CHR ''0'' # str_nat n else str_nat n)"

text \<open>Rounding to the nearest integer, ties to the even one, as \<open>round\<close> and \<open>format\<close> do.\<close>

definition round_half_even :: "rat \<Rightarrow> int" where
  "round_half_even x =
     (let f = \<lfloor>x\<rfloor>; d = x - of_int f
      in if d < 1 / 2 then f else if 1 / 2 < d then f + 1 else if even f then f else f + 1)"

text \<open>\<open>fmt2 x\<close> is \<open>f"{x:.2f}"\<close>.\<close>

definition fmt2 :: "rat \<Rightarrow> string" where
  "fmt2 x =
     (let n = round_half_even (\<bar>x\<bar> * 100)
      in (if x < 0 then ''-'' else []) @ str_nat (n div 100) @ ''.'' @ pad2 (n mod 100))"

text \<open>Thousands separators: \<open>group3\<close> works on the reversed digits.\<close>

fun group3 :: "string \<Rightarrow> string" where
  "group3 (a # b # c # d # rest) = a # b # c # CHR '','' # group3 (d # rest)"
| "group3 ds = ds"

definition commas :: "string \<Rightarrow> string" where
  "commas ds = rev (group3 (rev ds))"

text \<open>\<open>fmt2_commas x\<close> is \<open>f"{x:,.2f}"\<close>; \<open>fmt_int_commas i\<close> is \<open>f"{i:,}"\<close>.\<close>

definition fmt2_commas :: "rat \<Rightarrow> string" where
  "fmt2_commas x =
     (let n = round_half_even (\<bar>x\<bar> * 100)
      in (if x < 0 then ''-'' else []) @ commas (str_nat (n div 100)) @ ''.'' @ pad2 (n mod 100))"

definition fmt_int_commas :: "int \<Rightarrow> string" where
  "fmt_int_commas i = (if i < 0 then ''-'' else []) @ commas (str_nat \<bar>i\<bar>)"

text \<open>
  \<open>py_round k x\<close> is \<open>round(x, k)\<close>. \<open>repr_float x\<close> is \<open>str\<close> of a float whose decimal
  expansion ends within 17 digits (every value the program prints this way has just
  been rounded to two or three decimals): the integer part, a point, and the decimals
  without trailing zeros, \<open>0\<close> when there are none.
\<close>

definition py_round :: "nat \<Rightarrow> rat \<Rightarrow> rat" where
  "py_round k x = of_int (round_half_even (x * 10 ^ k)) / 10 ^ k"

fun frac_digits :: "nat \<Rightarrow> rat \<Rightarrow> string" where
  "frac_digits 0 r = []"
| "frac_digits (Suc fuel) r =
     (if r = 0 then []
      else let d = \<lfloor>r * 10\<rfloor> in digit_char d # frac_digits fuel (r * 10 - of_int d))"

definition repr_float :: "rat \<Rightarrow> string" where
  "repr_float x =
     (let a = \<bar>x\<bar>; i = \<lfloor>a\<rfloor>; ds = frac_digits 17 (a - of_int i)
      in (if x < 0 then ''-'' else []) @ str_nat i @ ''.'' @ (if ds = [] then ''0'' else ds))"

section \<open>Calendar dates\<close>

text \<open>
  \<open>civil_from_days z\<close> is the proleptic Gregorian date (year, month, day) of the day
  \<open>z\<close> days after 1 January 1970.
\<close>

definition civil_from_days :: "int \<Rightarrow> int \<times> int \<times> int" where
  "civil_from_days z0 =
     (let z = z0 + 719468;
          era = z div 146097;
          doe = z - era * 146097;
          yoe = (doe - doe div 1460 + doe div 36524 - doe div 146096) div 365;
          y = yoe + era * 400;
          doy = doe - (365 * yoe + yoe div 4 - yoe div 100);
          mp = (5 * doy + 2) div 153;
          d = doy - (153 * mp + 2) div 5 + 1;
          m = (if mp < 10 then mp + 3 else mp - 9)
      in (if m \<le> 2 then y + 1 else y, m, d))"

text \<open>
  \<open>strftime_dmy t\<close> is \<open>strftime('%d-%m-%Y')\<close> and \<open>strftime_ymd t\<close> is
  \<open>strftime('%Y-%m-%d')\<close> of the date-time that is \<open>t\<close> seconds after the epoch on the
  wall clock. A \<open>datetime\<close> has a year from 1 to 9999.
\<close>

definition year_ok :: "int \<Rightarrow> bool" where
  "year_ok t = (case civil_from_days (t div 86400) of (y, m, d) \<Rightarrow> 1 \<le> y \<and> y \<le> 9999)"

definition strftime_dmy :: "int \<Rightarrow> string" where
  "strftime_dmy t =
     (case civil_from_days (t div 86400) of
        (y, m, d) \<Rightarrow> pad2 d @ ''-'' @ pad2 m @ ''-'' @ str_int y)"

definition strftime_ymd :: "int \<Rightarrow> string" where
  "strftime_ymd t =
     (case civil_from_days (t div 86400) of
        (y, m, d) \<Rightarrow> str_int y @ ''-'' @ pad2 m @ ''-'' @ pad2 d)"

text \<open>
  \<open>datetime.fromtimestamp(t)\<close> gives the local wall clock: \<open>tz t\<close> is the offset of the
  machine's time zone from UTC, in seconds, at the instant \<open>t\<close>. It raises when the year
  is out of range; the result is the wall-clock second count.
\<close>

definition fromtimestamp :: "(int \<Rightarrow> int) \<Rightarrow> int \<Rightarrow> int option" where
  "fromtimestamp tz t = (let w = t + tz t in if year_ok w then Some w else None)"

text \<open>A machine whose clock is set to UTC.\<close>

definition utc :: "int \<Rightarrow> int" where
  "utc t = 0"

text \<open>
  Python's \<open>sorted(xs, key=k, reverse=True)\<close> is stable: elements with equal keys
  keep their order.
\<close>

definition sorted_desc :: "('a \<Rightarrow> 'k::linorder) \<Rightarrow> 'a list \<Rightarrow> 'a list" where
  "sorted_desc k xs = rev (sort_key k (rev xs))"

section \<open>The entry point\<close>

text \<open>
  \<open>main\<close> reads the operator's line, strips and uppercases it, and falls back to
  \<open>AAPL\<close> when nothing is left. \<open>main_ticker\<close> is the symbol handed to
  \<open>StockAnalyzer\<close>.
\<close>

definition main_ticker :: "string \<Rightarrow> string" where
  "main_ticker line =
     (let ticker_symbol = upper (strip line)
      in if ticker_symbol = [] then ''AAPL'' else ticker_symbol)"

section \<open>Key statistics: \<open>fetch_statistics\<close>\<close>



definition large_keys :: "string list" where
  "large_keys = [''marketCap'', ''enterpriseValue'', ''totalRevenue'', ''grossProfits'',
     ''ebitda'', ''totalCash'', ''totalDebt'', ''operatingCashflow'', ''freeCashflow'']"

definition percent_keys :: "string list" where
  "percent_keys = [''dividendYield'', ''profitMargins'', ''operatingMargins'',
     ''returnOnAssets'', ''returnOnEquity'', ''revenueGrowth'', ''earningsGrowth'',
     ''payoutRatio'']"

definition ratio_keys :: "string list" where
  "ratio_keys = [''trailingPE'', ''forwardPE'', ''pegRatio'',
     ''priceToSalesTrailing12Months'', ''priceToBook'', ''beta'']"

definition date_keys :: "string list" where
  "date_keys = [''exDividendDate'', ''lastSplitDate'']"

text \<open>The large-number branch (billions, millions, or plain with separators).\<close>

definition format_large :: "rat \<Rightarrow> string" where
  "format_large v =
     (if \<bar>v\<bar> \<ge> 1000000000 then ''$'' @ fmt2 (v / 1000000000) @ ''B''
      else if \<bar>v\<bar> \<ge> 1000000 then ''$'' @ fmt2 (v / 1000000) @ ''M''
      else ''$'' @ fmt2_commas v)"

text \<open>The percentage branch, for a number.\<close>

definition format_percent :: "string \<Rightarrow> rat \<Rightarrow> string" where
  "format_percent key v =
     (if \<bar>v\<bar> < 1 \<and> key \<noteq> ''payoutRatio'' then fmt2 (v * 100) @ ''%''
      else fmt2 v @ ''%'')"

text \<open>
  The formatting of one metric. \<open>Inl\<close> is an exception, which leaves the loop and
  the whole of \<open>fetch_statistics\<close>: \<open>abs\<close> of a string, the format code \<open>.2f\<close> on a
  string, a timestamp out of range.
\<close>

definition format_stat :: "(int \<Rightarrow> int) \<Rightarrow> string \<Rightarrow> pyval \<Rightarrow> exn + pyval" where
  "format_stat tz key value =
     (case value of
        PNone \<Rightarrow> Inr (PStr ''N/A'')
      | PNum v \<Rightarrow>
          if key \<in> set large_keys then Inr (PStr (format_large v))
          else if key \<in> set percent_keys then Inr (PStr (format_percent key v))
          else if key \<in> set ratio_keys then Inr (PStr (fmt2 v))
          else if key = ''lastSplitFactor'' then Inr value
          else if key \<in> set date_keys then
            (case fromtimestamp tz \<lfloor>v\<rfloor> of
               Some w \<Rightarrow> Inr (PStr (strftime_ymd w))
             | None \<Rightarrow> Inl ''year is out of range'')
          else Inr value
      | PStr s \<Rightarrow>
          if key \<in> set large_keys then Inl ''bad operand type for abs(): str''
          else if key \<in> set percent_keys then Inr value
          else if key \<in> set ratio_keys then Inl ''Unknown format code f for object of type str''
          else Inr value)"

section \<open>Company summary: the market capitalisation cell\<close>

text \<open>
  \<open>fetch_company_summary\<close> renders a market capitalisation (observed, or estimated
  as price times shares) with the same chain of thresholds. \<open>int(x)\<close> truncates
  towards zero.
\<close>

definition py_int :: "rat \<Rightarrow> int" where
  "py_int x = (if 0 \<le> x then \<lfloor>x\<rfloor> else \<lceil>x\<rceil>)"

definition market_cap_text :: "rat \<Rightarrow> string" where
  "market_cap_text market_cap =
     (if market_cap \<ge> 1000000000000 then repr_float (py_round 3 (market_cap / 1000000000000)) @ ''T''
      else if market_cap \<ge> 1000000000 then repr_float (py_round 3 (market_cap / 1000000000)) @ ''B''
      else if market_cap \<ge> 1000000 then repr_float (py_round 3 (market_cap / 1000000)) @ ''M''
      else fmt_int_commas (py_int market_cap))"

section \<open>Statement cells of the library tier\<close>

text \<open>
  The cells of a statement that comes from the client library are formatted by
  \<open>_process_yfinance_income_data\<close> and its two siblings: a number gets a suffix by
  magnitude, a missing number (NaN) is compared with every threshold in vain and is
  printed as it is, anything else goes through \<open>str\<close>.
\<close>

datatype cellval = CNum rat | CNaN | COther string

definition format_cell :: "cellval \<Rightarrow> string" where
  "format_cell value =
     (case value of
        CNum x \<Rightarrow>
          if \<bar>x\<bar> \<ge> 1000000000 then fmt2 (x / 1000000000) @ ''B''
          else if \<bar>x\<bar> \<ge> 1000000 then fmt2 (x / 1000000) @ ''M''
          else if \<bar>x\<bar> \<ge> 1000 then fmt2 (x / 1000) @ ''K''
          else fmt2 x
      | CNaN \<Rightarrow> ''nan''
      | COther s \<Rightarrow> s)"

section \<open>The workbook\<close>

text \<open>
  The \<open>ExcelWriter\<close> is modelled by the sheets it holds, by name. A sheet is what a
  category wrote: a one-row frame with a single column (\<open>Error\<close>, \<open>Info\<close> or
  \<open>Message\<close>) that marks a category as failed or unavailable, the price history, the
  ESG series with its note, a table of text cells, or the peer entries in their two
  groups (\<open>Peers\<close> and \<open>Related Tickers\<close>). The cell formats, column widths and merged
  ranges of the workbook are not part of the model.
\<close>

record esg_row =
  date :: string
  timestamp :: int
  esgScore :: "rat option"
  E_Score :: "rat option"
  S_Score :: "rat option"
  G_Score :: "rat option"
  Data_Source :: string

record peer_entry =
  Ticker :: string
  Company_Name :: string
  Total_ESG_Risk_Score :: pyval
  Env_Score :: pyval
  Soc_Score :: pyval
  Gov_Score :: pyval

datatype sheet =
    Marker string string
  | Prices "string list" "(string \<times> rat list) list"
  | Esg "esg_row list" string
  | Rows "string list list"
  | PeerGroups "peer_entry list" "peer_entry list"

type_synonym writer = "string \<rightharpoonup> sheet"

definition to_excel :: "string \<Rightarrow> sheet \<Rightarrow> writer \<Rightarrow> writer" where
  "to_excel sheet_name df w = w(sheet_name \<mapsto> df)"

text \<open>The writer of a new workbook, which has no sheet yet.\<close>

definition new_writer :: writer where
  "new_writer = Map.empty"

section \<open>Price history: \<open>fetch_historical_data\<close>\<close>








section \<open>ESG scores: \<open>fetch_esg_data\<close>\<close>

text \<open>
  The component scores that the function collects, \<open>None\<close> until a source sets them.
\<close>

record esg_components =
  totalEsg :: "rat option"
  environment :: "rat option"
  social :: "rat option"
  governance :: "rat option"
  controversyLevel :: pyval

definition no_components :: esg_components where
  "no_components = \<lparr>totalEsg = None, environment = None, social = None, governance = None,
     controversyLevel = PNone\<rparr>"

text \<open>
  An \<open>esgScores\<close> object of the provider: for each score, its \<open>raw\<close> value when the
  object has one; the controversy level when the key is there.
\<close>

record esg_scores =
  totalEsg_raw :: "rat option"
  environmentScore_raw :: "rat option"
  socialScore_raw :: "rat option"
  governanceScore_raw :: "rat option"
  controversy_value :: "pyval option"

definition or_else :: "'a option \<Rightarrow> 'a option \<Rightarrow> 'a option" where
  "or_else new old = (case new of Some v \<Rightarrow> Some v | None \<Rightarrow> old)"

definition take_scores :: "esg_scores \<Rightarrow> esg_components \<Rightarrow> esg_components" where
  "take_scores scores c =
     \<lparr>totalEsg = or_else (totalEsg_raw scores) (totalEsg c),
      environment = or_else (environmentScore_raw scores) (environment c),
      social = or_else (socialScore_raw scores) (social c),
      governance = or_else (governanceScore_raw scores) (governance c),
      controversyLevel = (case controversy_value scores of Some v \<Rightarrow> v | None \<Rightarrow> controversyLevel c)\<rparr>"

text \<open>
  A point of the series is an instant (epoch seconds) and the total score then, when
  there is one. The empty list stands for a series that is \<open>None\<close> or empty: the
  program only asks \<open>not esg_series\<close>.
\<close>

type_synonym esg_point = "int \<times> rat option"

text \<open>
  What the three sources answer. The chart endpoint: an exception, a reply that is not
  \<open>ok\<close>, a reply without a result, or a result with its \<open>symbolSeries\<close> and
  \<open>esgScores\<close>, each when present. The sustainability page: an exception, a reply that is
  not \<open>ok\<close>, or a page with the stores of its embedded scripts (an \<open>esgScores\<close> object and
  a chart series, each when present) and the first numeric texts of the score elements of
  its HTML. The client library: an exception, no frame, or the four columns, each when
  it is present, true and not NaN.
\<close>

datatype chart_reply =
    ChartRaised exn
  | ChartNotOk
  | ChartNoResult
  | ChartResult "esg_point list option" "esg_scores option"

record script_store =
  store_scores :: "esg_scores option"
  store_chart :: "esg_point list option"

datatype page_reply =
    PageRaised exn
  | PageNotOk
  | Page "script_store list" "rat option" "rat option"

datatype sust_reply =
    SustRaised exn
  | SustEmpty
  | Sust "rat option" "rat option" "rat option" "rat option"

record esg_sources =
  chart :: chart_reply
  page :: page_reply
  sustainability :: sust_reply
  now :: int

type_synonym esg_state = "esg_point list \<times> esg_components"

definition first_source :: "chart_reply \<Rightarrow> esg_state" where
  "first_source r =
     (case r of
        ChartResult series scores \<Rightarrow>
          (case series of Some s \<Rightarrow> s | None \<Rightarrow> [],
           case scores of Some sc \<Rightarrow> take_scores sc no_components | None \<Rightarrow> no_components)
      | _ \<Rightarrow> ([], no_components))"

definition read_store :: "script_store \<Rightarrow> esg_state \<Rightarrow> esg_state" where
  "read_store st s =
     (case s of (series, c) \<Rightarrow>
        (let c' = (case store_scores st of Some sc \<Rightarrow> take_scores sc c | None \<Rightarrow> c)
         in (case store_chart st of
               Some ch \<Rightarrow> if series = [] then (ch, c') else (series, c')
             | None \<Rightarrow> (series, c'))))"

definition falsy :: "rat option \<Rightarrow> bool" where
  "falsy v = (v = None \<or> v = Some 0)"

definition second_source :: "page_reply \<Rightarrow> esg_state \<Rightarrow> esg_state" where
  "second_source r s =
     (if fst s \<noteq> [] then s
      else case r of
        Page stores html_total html_environment \<Rightarrow>
          (case fold read_store stores s of (series, c) \<Rightarrow>
             if falsy (totalEsg c)
             then (series, c\<lparr>totalEsg := or_else html_total (totalEsg c),
                               environment := or_else html_environment (environment c)\<rparr>)
             else (series, c))
      | _ \<Rightarrow> s)"

definition all_none :: "esg_components \<Rightarrow> bool" where
  "all_none c = (totalEsg c = None \<and> environment c = None \<and> social c = None \<and>
     governance c = None \<and> controversyLevel c = PNone)"

definition third_source :: "sust_reply \<Rightarrow> esg_state \<Rightarrow> esg_state" where
  "third_source r s =
     (case s of (series, c) \<Rightarrow>
        if series = [] \<or> all_none c
        then (case r of
                Sust t e so g \<Rightarrow>
                  (series, c\<lparr>totalEsg := or_else t (totalEsg c),
                              environment := or_else e (environment c),
                              social := or_else so (social c),
                              governance := or_else g (governance c)\<rparr>)
              | _ \<Rightarrow> s)
        else s)"

definition collect_esg :: "esg_sources \<Rightarrow> esg_state" where
  "collect_esg src = third_source (sustainability src) (second_source (page src) (first_source (chart src)))"

text \<open>
  Without a series, a single point at the current time carries the total score; without
  that either, the function raises.
\<close>

definition series_or_raise :: "esg_sources \<Rightarrow> exn + esg_point list" where
  "series_or_raise src =
     (case collect_esg src of (series, c) \<Rightarrow>
        if series = []
        then (case totalEsg c of
                Some t \<Rightarrow> Inr [(now src, Some t)]
              | None \<Rightarrow> Inl ''No ESG data available for this ticker after multiple attempts'')
        else Inr series)"

definition all_present :: "esg_components \<Rightarrow> bool" where
  "all_present c = (environment c \<noteq> None \<and> social c \<noteq> None \<and> governance c \<noteq> None)"

definition data_source :: "esg_components \<Rightarrow> string" where
  "data_source c =
     (if all_present c then ''Current values (historical components not available)''
      else ''Partially estimated values (some components not available)'')"

text \<open>A component column: the current value, or 0.33 of the row's total score.\<close>

definition component_or_estimate :: "rat option \<Rightarrow> rat option \<Rightarrow> rat option" where
  "component_or_estimate component score =
     (case component of Some v \<Rightarrow> Some v | None \<Rightarrow> map_option (\<lambda>s. s * (33 / 100)) score)"

definition make_esg_row :: "esg_components \<Rightarrow> esg_point \<Rightarrow> esg_row" where
  "make_esg_row c p =
     \<lparr>date = strftime_dmy (fst p), timestamp = fst p, esgScore = snd p,
      E_Score = (if all_present c then environment c else component_or_estimate (environment c) (snd p)),
      S_Score = (if all_present c then social c else component_or_estimate (social c) (snd p)),
      G_Score = (if all_present c then governance c else component_or_estimate (governance c) (snd p)),
      Data_Source = data_source c\<rparr>"

definition esg_frame :: "esg_components \<Rightarrow> esg_point list \<Rightarrow> esg_row list" where
  "esg_frame c series = map (make_esg_row c) (sorted_desc fst series)"

definition fetch_esg_data :: "esg_sources \<Rightarrow> writer \<Rightarrow> writer" where
  "fetch_esg_data src w =
     (case series_or_raise src of
        Inr series \<Rightarrow>
          (let c = snd (collect_esg src)
           in to_excel ''ESG Scores'' (Esg (esg_frame c series) (''Note: '' @ data_source c)) w)
      | Inl e \<Rightarrow> to_excel ''ESG Scores'' (Marker ''Error'' (''Could not fetch ESG data: '' @ e)) w)"

section \<open>Financial statements\<close>

text \<open>
  A statement table is a list of rows of text cells; the first row is the header,
  \<open>Breakdown\<close> followed by the period dates.
\<close>

type_synonym table = "string list list"

definition pad_row :: "nat \<Rightarrow> string list \<Rightarrow> string list" where
  "pad_row n row = row @ replicate (n - length row) []"

subsection \<open>The embedded statement history\<close>

text \<open>
  A period of the provider's statement history. \<open>endDate\<close> is \<open>None\<close> when the period
  has no such key, and otherwise holds the \<open>raw\<close> epoch seconds of the end date when the
  object has them. An entry under a metric key is an object with or without a \<open>fmt\<close>
  text, or something that is not an object.
\<close>

datatype entry = Entry "string option" | NotAnObject

record period =
  endDate :: "int option option"
  entries :: "string \<rightharpoonup> entry"

text \<open>\<open>x.get('endDate', {}).get('raw', 0)\<close>, the sort key of the data rows.\<close>

definition raw_end :: "period \<Rightarrow> int" where
  "raw_end p = (case endDate p of Some (Some t) \<Rightarrow> t | _ \<Rightarrow> 0)"

text \<open>The header text of a period that has an end date.\<close>

definition date_label :: "(int \<Rightarrow> int) \<Rightarrow> period \<Rightarrow> string" where
  "date_label tz p =
     (case fromtimestamp tz (raw_end p) of
        Some w \<Rightarrow> strftime_dmy w
      | None \<Rightarrow> ''Unknown Date'')"

text \<open>The header dates: \<open>sorted(dates, reverse=True)\<close> on the formatted strings.\<close>

definition header_dates :: "(int \<Rightarrow> int) \<Rightarrow> period list \<Rightarrow> string list" where
  "header_dates tz history = rev (sort (map (date_label tz) [p \<leftarrow> history. endDate p \<noteq> None]))"

definition metric_cell :: "string \<Rightarrow> period \<Rightarrow> string" where
  "metric_cell json_key p =
     (case entries p json_key of
        None \<Rightarrow> []
      | Some (Entry (Some fmt)) \<Rightarrow> fmt
      | Some (Entry None) \<Rightarrow> ''N/A''
      | Some NotAnObject \<Rightarrow> [])"

definition metric_row :: "string list \<Rightarrow> period list \<Rightarrow> string \<times> string \<Rightarrow> string list" where
  "metric_row dates history m =
     (case m of (display_name, json_key) \<Rightarrow>
        if json_key = [] then display_name # map (\<lambda>_. []) dates
        else pad_row (Suc (length dates))
               (display_name # map (metric_cell json_key) (take (length dates) (sorted_desc raw_end history))))"

definition process_json_statement ::
  "(string \<times> string) list \<Rightarrow> (int \<Rightarrow> int) \<Rightarrow> period list \<Rightarrow> table option" where
  "process_json_statement metrics tz history =
     (if history = [] then None
      else let dates = header_dates tz history
           in Some ((''Breakdown'' # dates) # map (metric_row dates history) metrics))"

definition income_metrics :: "(string \<times> string) list" where
  "income_metrics =
    [(''Revenue'', ''totalRevenue''),
     (''Cost of Revenue'', ''costOfRevenue''),
     (''Gross Profit'', ''grossProfit''),
     (''Operating Expenses'', []),
     (''Research Development'', ''researchDevelopment''),
     (''Selling General Administrative'', ''sellingGeneralAdministrative''),
     (''Non Recurring'', ''nonRecurring''),
     (''Others'', ''otherOperatingExpenses''),
     (''Total Operating Expenses'', ''totalOperatingExpenses''),
     (''Operating Income or Loss'', ''operatingIncome''),
     (''Income from Continuing Operations'', []),
     (''Total Other Income/Expenses Net'', ''totalOtherIncomeExpenseNet''),
     (''Earnings Before Interest and Taxes'', ''ebit''),
     (''Interest Expense'', ''interestExpense''),
     (''Income Before Tax'', ''incomeBeforeTax''),
     (''Income Tax Expense'', ''incomeTaxExpense''),
     (''Minority Interest'', ''minorityInterest''),
     (''Net Income From Continuing Ops'', ''netIncomeFromContinuingOps''),
     (''Discontinued Operations'', []),
     (''Extraordinary Items'', ''extraordinaryItems''),
     (''Effect Of Accounting Changes'', ''effectOfAccountingChanges''),
     (''Other Items'', ''otherItems''),
     (''Net Income'', ''netIncome''),
     (''Net Income Applicable To Common Shares'', ''netIncomeApplicableToCommonShares'')]"

definition balance_metrics :: "(string \<times> string) list" where
  "balance_metrics =
    [(''Assets'', []),
     (''Current Assets'', []),
     (''Cash And Cash Equivalents'', ''cash''),
     (''Short Term Investments'', ''shortTermInvestments''),
     (''Net Receivables'', ''netReceivables''),
     (''Inventory'', ''inventory''),
     (''Other Current Assets'', ''otherCurrentAssets''),
     (''Total Current Assets'', ''totalCurrentAssets''),
     (''Long Term Assets'', []),
     (''Long Term Investments'', ''longTermInvestments''),
     (''Property Plant Equipment'', ''propertyPlantEquipment''),
     (''Goodwill'', ''goodwill''),
     (''Intangible Assets'', ''intangibleAssets''),
     (''Other Assets'', ''otherAssets''),
     (''Total Assets'', ''totalAssets''),
     (''Liabilities'', []),
     (''Current Liabilities'', []),
     (''Accounts Payable'', ''accountsPayable''),
     (''Short Term Debt'', ''shortLongTermDebt''),
     (''Other Current Liabilities'', ''otherCurrentLiabilities''),
     (''Total Current Liabilities'', ''totalCurrentLiabilities''),
     (''Long Term Debt'', ''longTermDebt''),
     (''Other Liabilities'', ''otherLiabilities''),
     (''Total Liabilities'', ''totalLiabilities''),
     (''Stockholders'' @ [CHR 0x27] @ '' Equity'', []),
     (''Common Stock'', ''commonStock''),
     (''Retained Earnings'', ''retainedEarnings''),
     (''Treasury Stock'', ''treasuryStock''),
     (''Other Stockholder Equity'', ''otherStockholderEquity''),
     (''Total Stockholder Equity'', ''totalStockholderEquity'')]"

definition cash_flow_metrics :: "(string \<times> string) list" where
  "cash_flow_metrics =
    [(''Operating Activities'', []),
     (''Net Income'', ''netIncome''),
     (''Depreciation'', ''depreciation''),
     (''Change in Working Capital'', ''changeToNetincome''),
     (''Change in Accounts Receivable'', ''changeToAccountReceivables''),
     (''Change in Liabilities'', ''changeToLiabilities''),
     (''Change in Inventory'', ''changeToInventory''),
     (''Change in Other Operating Activities'', ''changeToOperatingActivities''),
     (''Total Cash Flow from Operating Activities'', ''totalCashFromOperatingActivities''),
     (''Investing Activities'', []),
     (''Capital Expenditures'', ''capitalExpenditures''),
     (''Investments'', ''investments''),
     (''Other Cash Flows from Investing Activities'', ''otherCashflowsFromInvestingActivities''),
     (''Total Cash Flows from Investing Activities'', ''totalCashflowsFromInvestingActivities''),
     (''Financing Activities'', []),
     (''Dividends Paid'', ''dividendsPaid''),
     (''Stock Sale and Purchase'', ''netBorrowings''),
     (''Other Cash Flows from Financing Activities'', ''otherCashflowsFromFinancingActivities''),
     (''Total Cash Flows from Financing Activities'', ''totalCashFromFinancingActivities''),
     (''Net Change in Cash'', ''changeInCash''),
     (''Cash at Beginning of Period'', []),
     (''Cash at End of Period'', ''endCashPosition'')]"

definition process_json_income_data :: "(int \<Rightarrow> int) \<Rightarrow> period list \<Rightarrow> table option" where
  "process_json_income_data = process_json_statement income_metrics"

definition process_json_balance_data :: "(int \<Rightarrow> int) \<Rightarrow> period list \<Rightarrow> table option" where
  "process_json_balance_data = process_json_statement balance_metrics"

definition process_json_cash_flow_data :: "(int \<Rightarrow> int) \<Rightarrow> period list \<Rightarrow> table option" where
  "process_json_cash_flow_data = process_json_statement cash_flow_metrics"

subsection \<open>The library tier\<close>

text \<open>
  The transposed frame of the client library: its index (the period ends, as instants),
  its metric names and the value at a period and a metric (\<open>df.loc\<close>). The three
  functions \<open>_process_yfinance_income_data\<close>, \<open>_process_yfinance_balance_data\<close> and
  \<open>_process_yfinance_cash_flow_data\<close> are the same code.
\<close>

record statement_frame =
  index :: "int list"
  metrics :: "string list"
  loc :: "int \<Rightarrow> string \<Rightarrow> cellval"

definition process_yfinance_data :: "statement_frame \<Rightarrow> table" where
  "process_yfinance_data df =
     (''Breakdown'' # map strftime_dmy (index df))
       # map (\<lambda>metric. metric # map (\<lambda>date_obj. format_cell (loc df date_obj metric)) (index df))
           (metrics df)"

subsection \<open>The HTML tier\<close>

text \<open>
  The table element that was picked on the page: the rows of its \<open>thead\<close> with the texts
  of their \<open>th\<close> cells, and the rows of its \<open>tbody\<close> with the texts of their \<open>td\<close> cells;
  \<open>None\<close> when the element is missing. \<open>_parse_income_table\<close>, \<open>_parse_balance_table\<close>
  and \<open>_parse_cash_flow_table\<close> are the same code.
\<close>

record html_table =
  thead :: "string list list option"
  tbody :: "string list list option"

fun split_on :: "char \<Rightarrow> string \<Rightarrow> string list" where
  "split_on c [] = [[]]"
| "split_on c (x # xs) =
     (if x = c then [] # split_on c xs
      else case split_on c xs of p # ps \<Rightarrow> (x # p) # ps | [] \<Rightarrow> [[x]])"

definition isdigit :: "char \<Rightarrow> bool" where
  "isdigit c = (let n = (of_char c :: nat) in 48 \<le> n \<and> n \<le> 57)"

definition digits_value :: "string \<Rightarrow> int" where
  "digits_value ds = foldl (\<lambda>a c. 10 * a + (of_char c - 48)) 0 ds"

text \<open>\<open>int(s)\<close> on a string: white space around, a sign, decimal digits.\<close>

definition int_of_string :: "string \<Rightarrow> int option" where
  "int_of_string s =
     (let t = strip s;
          neg = (t \<noteq> [] \<and> hd t = CHR ''-'');
          ds = (if t \<noteq> [] \<and> (hd t = CHR ''-'' \<or> hd t = CHR ''+'') then tl t else t)
      in if ds \<noteq> [] \<and> list_all isdigit ds
         then Some (if neg then - digits_value ds else digits_value ds)
         else None)"

text \<open>\<open>f"{i:02d}"\<close>.\<close>

definition fmt_02d :: "int \<Rightarrow> string" where
  "fmt_02d i = (if 0 \<le> i then pad2 i else str_int i)"

text \<open>What a header cell adds to the dates: one text, or nothing.\<close>

definition header_date :: "string \<Rightarrow> string list" where
  "header_date date_text =
     (if CHR ''/'' \<in> set date_text then
        (case split_on CHR ''/'' date_text of
           [a, b, c] \<Rightarrow>
             (case (int_of_string a, int_of_string b, int_of_string c) of
                (Some month, Some day, Some year) \<Rightarrow> [fmt_02d day @ ''-'' @ fmt_02d month @ ''-'' @ str_int year]
              | _ \<Rightarrow> [date_text])
         | _ \<Rightarrow> [])
      else if CHR ''-'' \<in> set date_text then
        (case split_on CHR ''-'' date_text of
           [a, b, c] \<Rightarrow>
             (case (int_of_string a, int_of_string b, int_of_string c) of
                (Some year, Some month, Some day) \<Rightarrow> [fmt_02d day @ ''-'' @ fmt_02d month @ ''-'' @ str_int year]
              | _ \<Rightarrow> [date_text])
         | _ \<Rightarrow> [])
      else [date_text])"

definition parse_statement_table :: "html_table \<Rightarrow> table option" where
  "parse_statement_table t =
     (case thead t of
        None \<Rightarrow> None
      | Some head_rows \<Rightarrow>
          if head_rows = [] then None
          else (case tbody t of
                  None \<Rightarrow> None
                | Some body_rows \<Rightarrow>
                    Some ((''Breakdown'' # concat (map (\<lambda>cell. header_date (strip cell)) (tl (last head_rows))))
                          # [row_data \<leftarrow> map (map strip) body_rows. 1 < length row_data])))"

subsection \<open>The earnings chart\<close>

text \<open>
  An item of \<open>financialsChart.yearly\<close>: its \<open>date\<close> when it has one (the provider sends
  a year, as a number or as text), and its \<open>revenue\<close> and \<open>earnings\<close> entries when it
  has them.
\<close>

datatype ydate = YInt int | YStr string

record yearly_item =
  item_date :: "ydate option"
  revenue :: "entry option"
  earnings :: "entry option"

definition chart_date_text :: "ydate \<Rightarrow> string" where
  "chart_date_text d =
     (case d of
        YInt year \<Rightarrow> ''31-12-'' @ str_int year
      | YStr s \<Rightarrow> (case int_of_string s of Some year \<Rightarrow> ''31-12-'' @ str_int year | None \<Rightarrow> s))"

text \<open>
  \<open>sorted(yearly, key=lambda x: x.get('date', ''), reverse=True)\<close>: numbers are compared
  with numbers and texts with texts; comparing a number with a text raises.
\<close>

definition is_yint :: "yearly_item \<Rightarrow> bool" where
  "is_yint x = (case item_date x of Some (YInt _) \<Rightarrow> True | _ \<Rightarrow> False)"

definition yint_key :: "yearly_item \<Rightarrow> int" where
  "yint_key x = (case item_date x of Some (YInt y) \<Rightarrow> y | _ \<Rightarrow> 0)"

definition ystr_key :: "yearly_item \<Rightarrow> string" where
  "ystr_key x = (case item_date x of Some (YStr s) \<Rightarrow> s | _ \<Rightarrow> [])"

definition sort_yearly :: "yearly_item list \<Rightarrow> exn + yearly_item list" where
  "sort_yearly yearly =
     (if length yearly \<le> 1 then Inr yearly
      else if list_all is_yint yearly then Inr (sorted_desc yint_key yearly)
      else if list_all (\<lambda>x. \<not> is_yint x) yearly then Inr (sorted_desc ystr_key yearly)
      else Inl ''< not supported between instances of str and int'')"

text \<open>\<open>item.get(k, {}).get('fmt', 'N/A')\<close>, which raises on an entry that is not an object.\<close>

definition chart_cell :: "entry option \<Rightarrow> string option" where
  "chart_cell e =
     (case e of
        None \<Rightarrow> Some ''N/A''
      | Some (Entry (Some fmt)) \<Rightarrow> Some fmt
      | Some (Entry None) \<Rightarrow> Some ''N/A''
      | Some NotAnObject \<Rightarrow> None)"

definition process_financials_chart :: "yearly_item list \<Rightarrow> exn + table option" where
  "process_financials_chart yearly =
     (if yearly = [] then Inr None
      else
        let dates = rev (sort (map chart_date_text (List.map_filter item_date yearly)));
            header_row = ''Breakdown'' # dates
        in case sort_yearly yearly of
             Inl e \<Rightarrow> Inl e
           | Inr items \<Rightarrow>
               if list_all (\<lambda>x. chart_cell (revenue x) \<noteq> None \<and> chart_cell (earnings x) \<noteq> None) items
               then Inr (Some
                 [header_row,
                  pad_row (length header_row) (''Revenue'' # map (\<lambda>x. the (chart_cell (revenue x))) items),
                  [''Operating Expenses'', []] @ replicate (length dates - 1) [],
                  pad_row (length header_row) (''Net Income'' # map (\<lambda>x. the (chart_cell (earnings x))) items)])
               else Inl ''str object has no attribute get'')"

subsection \<open>The three tiers of a statement\<close>

text \<open>
  What the page of a statement holds: the embedded JSON (none that can be used, one that
  \<open>json.loads\<close> rejects, the statement history, or the earnings chart) and the table
  element that the search over the page's tables picks, if any. What the client library
  answers: an exception, nothing, or a frame.
\<close>

datatype embedded = NoData | JsonError exn | History "period list" | Chart "yearly_item list"

record statement_page =
  embedded_json :: embedded
  picked_table :: "html_table option"

datatype http_reply = HttpRaised exn | HttpReply int statement_page

datatype library_reply = LibRaised exn | LibEmpty | LibFrame statement_frame

record statement_sources =
  response :: http_reply
  library :: library_reply

text \<open>\<open>not data\<close>: \<open>None\<close> or the empty list.\<close>

definition no_table :: "table option \<Rightarrow> bool" where
  "no_table d = (d = None \<or> d = Some [])"

definition later_tiers :: "table option \<Rightarrow> html_table option \<Rightarrow> library_reply \<Rightarrow> exn + table option" where
  "later_tiers d1 tbl lib =
     (let d2 = (if no_table d1 then (case tbl of Some t \<Rightarrow> parse_statement_table t | None \<Rightarrow> d1) else d1)
      in if no_table d2
         then (case lib of
                 LibRaised e \<Rightarrow> Inl e
               | LibEmpty \<Rightarrow> Inr d2
               | LibFrame f \<Rightarrow> Inr (Some (process_yfinance_data f)))
         else Inr d2)"

definition enough_rows :: "string \<Rightarrow> exn + table option \<Rightarrow> exn + table" where
  "enough_rows what r =
     (case r of
        Inl e \<Rightarrow> Inl e
      | Inr d \<Rightarrow>
          (case d of
             Some t \<Rightarrow> if length t \<le> 1 then Inl (''Could not extract '' @ what @ '' data from any source'') else Inr t
           | None \<Rightarrow> Inl (''Could not extract '' @ what @ '' data from any source'')))"

definition income_first_tier :: "(int \<Rightarrow> int) \<Rightarrow> embedded \<Rightarrow> table option" where
  "income_first_tier tz e =
     (case e of
        History h \<Rightarrow> process_json_income_data tz h
      | Chart y \<Rightarrow> (case process_financials_chart y of Inr d \<Rightarrow> d | Inl _ \<Rightarrow> None)
      | _ \<Rightarrow> None)"

definition scrape_statement ::
  "string \<Rightarrow> (embedded \<Rightarrow> table option) \<Rightarrow> statement_sources \<Rightarrow> exn + table" where
  "scrape_statement what first_tier src =
     (case response src of
        HttpRaised e \<Rightarrow> Inl e
      | HttpReply status_code pg \<Rightarrow>
          if status_code \<noteq> 200
          then Inl (''Failed to fetch '' @ what @ '' data (Status Code: '' @ str_int status_code @ '')'')
          else (case embedded_json pg of
                  JsonError e \<Rightarrow> Inl e
                | e \<Rightarrow> enough_rows what (later_tiers (first_tier e) (picked_table pg) (library src))))"

definition statement_sheet :: "string \<Rightarrow> string \<Rightarrow> exn + table \<Rightarrow> writer \<Rightarrow> writer" where
  "statement_sheet sheet_name what r w =
     (case r of
        Inr data \<Rightarrow> to_excel sheet_name (Rows data) w
      | Inl e \<Rightarrow> to_excel sheet_name (Marker ''Error'' (''Could not fetch '' @ what @ '' data: '' @ e)) w)"

definition scrape_income_statement :: "(int \<Rightarrow> int) \<Rightarrow> statement_sources \<Rightarrow> writer \<Rightarrow> writer" where
  "scrape_income_statement tz src =
     statement_sheet ''Income Statement'' ''income statement''
       (scrape_statement ''income statement'' (income_first_tier tz) src)"




section \<open>Company summary: beta, P/E and EPS\<close>













section \<open>Peer comparison: \<open>fetch_peers_esg\<close>\<close>

text \<open>Index, future and derivative symbols, and the boilerplate that is not a company.\<close>

definition non_company :: "string \<Rightarrow> bool" where
  "non_company ticker =
     (startswith ticker ''^'' \<or> contains ticker ''='' \<or> endswith ticker ''^3DF'' \<or> ticker = ''DJT'')"

definition name_keywords :: "string list" where
  "name_keywords = [''copyright'', ''future'', ''index'', ''dow jones'', ''s&p'', ''dax'', ''rights reserved'']"

definition boilerplate :: "string \<Rightarrow> bool" where
  "boilerplate company_name =
     (company_name \<noteq> [] \<and> list_ex (\<lambda>keyword. contains (lower company_name) keyword) name_keywords)"

subsection \<open>The links of the peers section\<close>











subsection \<open>The peers of the embedded scripts\<close>

text \<open>
  A peer object of an embedded script: its \<open>symbol\<close> and \<open>name\<close> when it has them, and its
  scores (\<open>esgScore\<close> or else \<open>totalEsg\<close>, and so on for the three components). A match of
  the search in a script is rejected by \<open>json.loads\<close>, or parses to something without
  peers, or to a list of peers, some of which are not objects. A script is looked at when
  its text mentions \<open>ESG\<close> and \<open>peer\<close>; the search stops at its first match that parses.
\<close>

record peer_json =
  symbol :: "string option"
  peer_name :: "string option"
  peer_total :: pyval
  peer_environment :: pyval
  peer_social :: pyval
  peer_governance :: pyval

datatype json_match = Rejected | NoPeers | PeerList "peer_json option list"

record peer_script =
  mentions_peers :: bool
  json_matches :: "json_match list"

definition add_json_peer :: "peer_entry list \<Rightarrow> peer_json option \<Rightarrow> peer_entry list" where
  "add_json_peer peer_data peer =
     (case peer of
        None \<Rightarrow> peer_data
      | Some p \<Rightarrow>
          (case symbol p of
             None \<Rightarrow> peer_data
           | Some ticker \<Rightarrow>
               if non_company ticker then peer_data
               else
                 (let company_name = (case peer_name p of Some n \<Rightarrow> n | None \<Rightarrow> ticker)
                  in if boilerplate company_name then peer_data
                     else peer_data @
                       [\<lparr>Ticker = ticker, Company_Name = company_name,
                         Total_ESG_Risk_Score = peer_total p, Env_Score = peer_environment p,
                         Soc_Score = peer_social p, Gov_Score = peer_governance p\<rparr>])))"

definition add_script :: "peer_entry list \<Rightarrow> peer_script \<Rightarrow> peer_entry list" where
  "add_script peer_data script =
     (if mentions_peers script
      then (case dropWhile (\<lambda>m. m = Rejected) (json_matches script) of
              PeerList peers # _ \<Rightarrow> foldl add_json_peer peer_data peers
            | _ \<Rightarrow> peer_data)
      else peer_data)"


subsection \<open>The filter over what was scraped\<close>




subsection \<open>The recommendation fallback and the subject's own row\<close>















section \<open>Key statistics: the sheet\<close>







section \<open>Sustainability flags: \<open>fetch_sustainability\<close>\<close>
















section \<open>Company summary: the sheet\<close>




text \<open>
  What the summary is built from. The other cells of the four columns (prices, ranges
  and volumes; the market capitalisation; dates, dividend and target) and the company
  profile are taken as the function computes them, each with the exception that
  computing it can raise.
\<close>

record profile =
  full_time_employees :: string
  fiscal_year_end :: string
  sector :: string
  industry :: string
  company_name :: string
  business_summary :: string







section \<open>A run: \<open>fetch_all_data\<close>\<close>





section \<open>Example inputs\<close>

text \<open>
  Concrete answers of the provider and of its pages, on which the properties below are
  instantiated.
\<close>

subsection \<open>Price frames\<close>



subsection \<open>ESG sources\<close>

text \<open>A chart reply with a series of two points and no social or governance score.\<close>

definition esg_example :: esg_sources where
  "esg_example = \<lparr>chart = ChartResult (Some [(1600000000, Some 30), (1700000000, Some 20)])
              (Some \<lparr>totalEsg_raw = Some 20, environmentScore_raw = Some 5, socialScore_raw = None,
                     governanceScore_raw = None, controversy_value = None\<rparr>),
            page = PageNotOk, sustainability = SustEmpty, now = 1750000000\<rparr>"

definition esg_example_row :: esg_row where
  "esg_example_row = \<lparr>date = ''14-11-2023'', timestamp = 1700000000, esgScore = Some 20,
     E_Score = Some 5, S_Score = Some (33 / 5), G_Score = Some (33 / 5),
     Data_Source = ''Partially estimated values (some components not available)''\<rparr>"

subsection \<open>Statements\<close>

text \<open>
  Four fiscal years of an income statement history, newest first as the provider sends
  them (30 September 2023, 24 September 2022, 25 September 2021, 26 September 2020), and
  a page without embedded data whose table has a body row shorter than its header.
\<close>

definition aapl_income_history :: "period list" where
  "aapl_income_history =
    [\<lparr>endDate = Some (Some 1696032000), entries = [''totalRevenue'' \<mapsto> Entry (Some ''383.29B'')]\<rparr>,
     \<lparr>endDate = Some (Some 1663977600), entries = [''totalRevenue'' \<mapsto> Entry (Some ''394.33B'')]\<rparr>,
     \<lparr>endDate = Some (Some 1632528000), entries = [''totalRevenue'' \<mapsto> Entry (Some ''365.82B'')]\<rparr>,
     \<lparr>endDate = Some (Some 1601078400), entries = [''totalRevenue'' \<mapsto> Entry (Some ''274.52B'')]\<rparr>]"

definition html_example :: html_table where
  "html_example = \<lparr>thead = Some [[''Breakdown'', ''12/31/2023'', ''12/31/2022'']],
                    tbody = Some [[''Total Revenue'', ''383.29B'']]\<rparr>"

definition html_sources :: statement_sources where
  "html_sources = \<lparr>response = HttpReply 200 \<lparr>embedded_json = NoData, picked_table = Some html_example\<rparr>,
                    library = LibEmpty\<rparr>"

subsection \<open>Company summary\<close>




subsection \<open>Peers\<close>








subsection \<open>A run without the provider\<close>



section \<open>Properties\<close>

subsection \<open>Strings\<close>

lemma upper_Nil_iff: "upper s = [] \<longleftrightarrow> s = []"
  by (simp add: upper_def)

lemma lstrip_decomp: "\<exists>pre. s = pre @ lstrip s \<and> list_all isspace pre"
  unfolding lstrip_def list_all_iff
  by (metis takeWhile_dropWhile_id set_takeWhileD)

lemma rstrip_decomp: "\<exists>post. s = rstrip s @ post \<and> list_all isspace post"
proof -
  have "rev s = takeWhile isspace (rev s) @ dropWhile isspace (rev s)" by simp
  then have "s = rev (dropWhile isspace (rev s)) @ rev (takeWhile isspace (rev s))"
    by (metis rev_append rev_rev_ident)
  moreover have "list_all isspace (rev (takeWhile isspace (rev s)))"
    by (auto simp: list_all_iff dest: set_takeWhileD)
  ultimately show ?thesis unfolding rstrip_def by blast
qed

lemma strip_decomp:
  "\<exists>pre post. s = pre @ strip s @ post \<and> list_all isspace pre \<and> list_all isspace post"
proof -
  obtain pre where p: "s = pre @ lstrip s" "list_all isspace pre"
    using lstrip_decomp by blast
  obtain post where q: "lstrip s = rstrip (lstrip s) @ post" "list_all isspace post"
    using rstrip_decomp by blast
  have "s = pre @ strip s @ post" unfolding strip_def using p(1) q(1) by simp
  with p(2) q(2) show ?thesis by blast
qed

lemma lstrip_hd: "lstrip s \<noteq> [] \<Longrightarrow> \<not> isspace (hd (lstrip s))"
  unfolding lstrip_def by (simp add: hd_dropWhile)

lemma rstrip_last: "rstrip s \<noteq> [] \<Longrightarrow> \<not> isspace (last (rstrip s))"
  unfolding rstrip_def by (simp add: last_rev hd_dropWhile)

lemma rstrip_hd: "rstrip s \<noteq> [] \<Longrightarrow> hd (rstrip s) = hd s"
  by (metis rstrip_decomp hd_append2)

lemma strip_ends:
  assumes ne: "strip s \<noteq> []"
  shows "\<not> isspace (hd (strip s)) \<and> \<not> isspace (last (strip s))"
proof -
  from ne have l: "lstrip s \<noteq> []" unfolding strip_def rstrip_def by auto
  have "hd (strip s) = hd (lstrip s)" using ne unfolding strip_def by (rule rstrip_hd)
  with lstrip_hd[OF l] rstrip_last[of "lstrip s"] ne show ?thesis
    unfolding strip_def by simp
qed

lemma upper_char_not_lower: "\<not> islower (upper_char c)"
  unfolding upper_char_def islower_def Let_def by auto

lemma upper_no_lower: "list_all (\<lambda>c. \<not> islower c) (upper s)"
  by (simp add: upper_def list_all_iff upper_char_not_lower)

subsection \<open>The ticker symbol of a run\<close>

text \<open>
  Claim C10. The operator's input is stripped of the white space around it and
  uppercased before it is used, and an input that is empty after stripping makes the
  run use \<open>AAPL\<close>: the symbol is never empty, the input is the symbol's source between
  two runs of white space, and what is kept neither starts nor ends with white space
  and has no lowercase letter.
\<close>

theorem main_ticker_trimmed_uppercased:
  "main_ticker line = (if strip line = [] then ''AAPL'' else upper (strip line))
   \<and> (\<exists>pre post. line = pre @ strip line @ post \<and> list_all isspace pre \<and> list_all isspace post)
   \<and> (strip line \<noteq> [] \<longrightarrow> \<not> isspace (hd (strip line)) \<and> \<not> isspace (last (strip line)))
   \<and> list_all (\<lambda>c. \<not> islower c) (main_ticker line)
   \<and> main_ticker line \<noteq> []"
proof -
  have a: "main_ticker line = (if strip line = [] then ''AAPL'' else upper (strip line))"
    by (simp add: main_ticker_def Let_def upper_Nil_iff)
  have d: "list_all (\<lambda>c. \<not> islower c) ''AAPL''" by code_simp
  have e: "list_all (\<lambda>c. \<not> islower c) (main_ticker line)"
    unfolding a using d upper_no_lower by simp
  have f: "main_ticker line \<noteq> []" unfolding a by (simp add: upper_Nil_iff)
  from a strip_decomp strip_ends e f show ?thesis by blast
qed

theorem main_ticker_trimmed_uppercased_witness:
  "strip '' msft  '' \<noteq> [] \<and> main_ticker '' msft  '' = ''MSFT'' \<and> main_ticker ''   '' = ''AAPL''"
proof -
  have s1: "strip '' msft  '' = ''msft''" by code_simp
  have s2: "strip ''   '' = []" by code_simp
  have u: "upper ''msft'' = ''MSFT''" by code_simp
  from main_ticker_trimmed_uppercased [of "'' msft  ''"]
  have "main_ticker '' msft  '' = (if strip '' msft  '' = [] then ''AAPL'' else upper (strip '' msft  ''))"
    by (rule conjunct1)
  then have m1: "main_ticker '' msft  '' = ''MSFT''" by (simp add: s1 u)
  from main_ticker_trimmed_uppercased [of "''   ''"]
  have "main_ticker ''   '' = (if strip ''   '' = [] then ''AAPL'' else upper (strip ''   ''))"
    by (rule conjunct1)
  then have m2: "main_ticker ''   '' = ''AAPL''" by (simp add: s2)
  from s1 m1 m2 show ?thesis by simp
qed

subsection \<open>Number formatting\<close>

lemma percent_not_large: "key \<in> set percent_keys \<Longrightarrow> key \<notin> set large_keys"
  by (auto simp: percent_keys_def large_keys_def)

text \<open>
  Claim C9. When \<open>fetch_statistics\<close> formats a number under one of its percentage
  keys, a value of absolute value below 1 under a key other than \<open>payoutRatio\<close> is
  multiplied by 100 before the percent sign is appended, and every other value gets the
  percent sign unscaled; a yield of 0.07 is rendered as \<open>7.00%\<close>.
\<close>

theorem percent_fields_scaled:
  "(key \<in> set percent_keys \<longrightarrow>
      format_stat tz key (PNum v) =
        Inr (PStr ((if \<bar>v\<bar> < 1 \<and> key \<noteq> ''payoutRatio'' then fmt2 (v * 100) else fmt2 v) @ ''%'')))
   \<and> format_stat tz ''dividendYield'' (PNum (7 / 100)) = Inr (PStr ''7.00%'')"
proof -
  have gen: "format_stat tz k (PNum x) =
        Inr (PStr ((if \<bar>x\<bar> < 1 \<and> k \<noteq> ''payoutRatio'' then fmt2 (x * 100) else fmt2 x) @ ''%''))"
    if "k \<in> set percent_keys" for k x
    using that percent_not_large[OF that] by (simp add: format_stat_def format_percent_def)
  have m: "''dividendYield'' \<in> set percent_keys" by (simp add: percent_keys_def)
  have f: "fmt2 (7 / 100 * 100) = ''7.00''" by code_simp
  have "format_stat tz ''dividendYield'' (PNum (7 / 100)) = Inr (PStr ''7.00%'')"
    using gen[OF m, of "7/100"] f by simp
  with gen show ?thesis by blast
qed

theorem percent_fields_scaled_witness:
  "''returnOnEquity'' \<in> set percent_keys
   \<and> format_stat utc ''returnOnEquity'' (PNum (1 / 4)) = Inr (PStr ''25.00%'')
   \<and> ''payoutRatio'' \<in> set percent_keys
   \<and> format_stat utc ''payoutRatio'' (PNum (1 / 4)) = Inr (PStr ''0.25%'')"
proof -
  have m1: "''returnOnEquity'' \<in> set percent_keys" by (simp add: percent_keys_def)
  have m2: "''payoutRatio'' \<in> set percent_keys" by (simp add: percent_keys_def)
  have f1: "fmt2 (1 / 4 * 100) = ''25.00''" by code_simp
  have f2: "fmt2 (1 / 4) = ''0.25''" by code_simp
  from percent_fields_scaled [of "''returnOnEquity''" utc "1/4"] m1
  have a: "format_stat utc ''returnOnEquity'' (PNum (1 / 4)) = Inr (PStr ''25.00%'')"
    using f1 by simp
  from percent_fields_scaled [of "''payoutRatio''" utc "1/4"] m2
  have b: "format_stat utc ''payoutRatio'' (PNum (1 / 4)) = Inr (PStr ''0.25%'')"
    using f2 by simp
  from m1 a m2 b show ?thesis by simp
qed

text \<open>
  Claim C8, as the specification states it, fails on the program: neither
  \<open>fetch_statistics\<close> nor \<open>fetch_company_summary\<close> renders 2,500,000,000 as \<open>2.50B\<close> or
  999 as \<open>999.00\<close>, and \<open>fetch_statistics\<close> has no \<open>T\<close> tier.
\<close>

theorem magnitude_format_counterexample:
  "format_stat utc ''marketCap'' (PNum 2500000000) \<noteq> Inr (PStr ''2.50B'')
   \<and> format_stat utc ''marketCap'' (PNum 999) \<noteq> Inr (PStr ''999.00'')
   \<and> format_stat utc ''marketCap'' (PNum 1000000000000) = Inr (PStr ''$1000.00B'')
   \<and> market_cap_text 2500000000 \<noteq> ''2.50B''
   \<and> market_cap_text 999 \<noteq> ''999.00''"
  by code_simp

text \<open>
  Claim C8, amended. The suffix is chosen by magnitude thresholds, differently in each
  place. \<open>fetch_statistics\<close> writes a dollar sign and two decimals, \<open>B\<close> from \<open>10^9\<close> and \<open>M\<close>
  from \<open>10^6\<close> in absolute value, and below that the plain amount with thousands
  separators: 2,500,000,000 is \<open>$2.50B\<close> and 999 is \<open>$999.00\<close>. The market
  capitalisation of \<open>fetch_company_summary\<close> is rounded to three decimals with \<open>T\<close> from
  \<open>10^12\<close>, \<open>B\<close> from \<open>10^9\<close>, \<open>M\<close> from \<open>10^6\<close>, and below that is a whole number with
  separators: 2,500,000,000 is \<open>2.5B\<close> and 999 is \<open>999\<close>. The statement cells of the
  library tier have two decimals with \<open>B\<close>, \<open>M\<close> and \<open>K\<close> (from \<open>10^3\<close>): there
  2,500,000,000 is \<open>2.50B\<close> and 999 is \<open>999.00\<close>.
\<close>

theorem magnitude_suffix_by_threshold:
  "(key \<in> set large_keys \<longrightarrow>
      format_stat tz key (PNum v) =
        Inr (PStr (''$'' @ (if \<bar>v\<bar> \<ge> 10 ^ 9 then fmt2 (v / 10 ^ 9) @ ''B''
                            else if \<bar>v\<bar> \<ge> 10 ^ 6 then fmt2 (v / 10 ^ 6) @ ''M''
                            else fmt2_commas v))))
   \<and> format_stat tz ''marketCap'' (PNum 2500000000) = Inr (PStr ''$2.50B'')
   \<and> format_stat tz ''marketCap'' (PNum 999) = Inr (PStr ''$999.00'')
   \<and> market_cap_text v =
        (if v \<ge> 10 ^ 12 then repr_float (py_round 3 (v / 10 ^ 12)) @ ''T''
         else if v \<ge> 10 ^ 9 then repr_float (py_round 3 (v / 10 ^ 9)) @ ''B''
         else if v \<ge> 10 ^ 6 then repr_float (py_round 3 (v / 10 ^ 6)) @ ''M''
         else fmt_int_commas (py_int v))
   \<and> market_cap_text 2500000000 = ''2.5B''
   \<and> market_cap_text 999 = ''999''
   \<and> format_cell (CNum x) =
        (if \<bar>x\<bar> \<ge> 10 ^ 9 then fmt2 (x / 10 ^ 9) @ ''B''
         else if \<bar>x\<bar> \<ge> 10 ^ 6 then fmt2 (x / 10 ^ 6) @ ''M''
         else if \<bar>x\<bar> \<ge> 10 ^ 3 then fmt2 (x / 10 ^ 3) @ ''K''
         else fmt2 x)
   \<and> format_cell (CNum 2500000000) = ''2.50B''
   \<and> format_cell (CNum 999) = ''999.00''"
proof -
  have a: "format_stat tz k (PNum y) =
        Inr (PStr (''$'' @ (if \<bar>y\<bar> \<ge> 10 ^ 9 then fmt2 (y / 10 ^ 9) @ ''B''
                            else if \<bar>y\<bar> \<ge> 10 ^ 6 then fmt2 (y / 10 ^ 6) @ ''M''
                            else fmt2_commas y)))"
    if "k \<in> set large_keys" for k y
    using that by (simp add: format_stat_def format_large_def)
  have m: "''marketCap'' \<in> set large_keys" by (simp add: large_keys_def)
  have f1: "fmt2 (2500000000 / 10 ^ 9) = ''2.50''" by code_simp
  have f2: "fmt2_commas 999 = ''999.00''" by code_simp
  have b: "format_stat tz ''marketCap'' (PNum 2500000000) = Inr (PStr ''$2.50B'')"
    using a[OF m, of 2500000000] f1 by simp
  have c: "format_stat tz ''marketCap'' (PNum 999) = Inr (PStr ''$999.00'')"
    using a[OF m, of 999] f2 by simp
  have d: "market_cap_text v =
        (if v \<ge> 10 ^ 12 then repr_float (py_round 3 (v / 10 ^ 12)) @ ''T''
         else if v \<ge> 10 ^ 9 then repr_float (py_round 3 (v / 10 ^ 9)) @ ''B''
         else if v \<ge> 10 ^ 6 then repr_float (py_round 3 (v / 10 ^ 6)) @ ''M''
         else fmt_int_commas (py_int v))"
    by (simp add: market_cap_text_def)
  have e: "market_cap_text 2500000000 = ''2.5B''" by code_simp
  have f: "market_cap_text 999 = ''999''" by code_simp
  have g: "format_cell (CNum x) =
        (if \<bar>x\<bar> \<ge> 10 ^ 9 then fmt2 (x / 10 ^ 9) @ ''B''
         else if \<bar>x\<bar> \<ge> 10 ^ 6 then fmt2 (x / 10 ^ 6) @ ''M''
         else if \<bar>x\<bar> \<ge> 10 ^ 3 then fmt2 (x / 10 ^ 3) @ ''K''
         else fmt2 x)"
    by (simp add: format_cell_def)
  have h: "format_cell (CNum 2500000000) = ''2.50B''" by code_simp
  have i: "format_cell (CNum 999) = ''999.00''" by code_simp
  from a b c d e f g h i show ?thesis by blast
qed

theorem magnitude_suffix_by_threshold_witness:
  "''totalRevenue'' \<in> set large_keys
   \<and> format_stat utc ''totalRevenue'' (PNum 394328000000) = Inr (PStr ''$394.33B'')"
proof -
  have m: "''totalRevenue'' \<in> set large_keys" by (simp add: large_keys_def)
  have f: "fmt2 (394328000000 / 10 ^ 9) = ''394.33''" by code_simp
  have g: "\<bar>394328000000 :: rat\<bar> \<ge> 10 ^ 9" by simp
  from magnitude_suffix_by_threshold [of "''totalRevenue''" utc 394328000000] m
  have "format_stat utc ''totalRevenue'' (PNum 394328000000) =
        Inr (PStr (''$'' @ (if \<bar>394328000000 :: rat\<bar> \<ge> 10 ^ 9 then fmt2 (394328000000 / 10 ^ 9) @ ''B''
                            else if \<bar>394328000000 :: rat\<bar> \<ge> 10 ^ 6 then fmt2 (394328000000 / 10 ^ 6) @ ''M''
                            else fmt2_commas 394328000000)))"
    by blast
  then have "format_stat utc ''totalRevenue'' (PNum 394328000000) = Inr (PStr ''$394.33B'')"
    using f g by simp
  with m show ?thesis by simp
qed

subsection \<open>Price history\<close>


lemma set_sorted_desc: "set (sorted_desc k xs) = set xs"
  by (simp add: sorted_desc_def)

lemma length_sorted_desc: "length (sorted_desc k xs) = length xs"
  by (simp add: sorted_desc_def)











subsection \<open>ESG records\<close>

lemma esg_sheet_rows:
  assumes "fetch_esg_data src w ''ESG Scores'' = Some (Esg rows note)"
  shows "\<exists>series. series_or_raise src = Inr series
           \<and> rows = esg_frame (snd (collect_esg src)) series
           \<and> note = ''Note: '' @ data_source (snd (collect_esg src))"
  using assms
  by (cases "series_or_raise src") (simp_all add: fetch_esg_data_def to_excel_def Let_def)

lemma make_esg_row_observed:
  assumes "environment c \<noteq> None" "social c \<noteq> None" "governance c \<noteq> None"
  shows "Data_Source (make_esg_row c p) = ''Current values (historical components not available)''
     \<and> E_Score (make_esg_row c p) = environment c
     \<and> S_Score (make_esg_row c p) = social c
     \<and> G_Score (make_esg_row c p) = governance c"
  using assms by (simp add: make_esg_row_def data_source_def all_present_def)

lemma make_esg_row_estimated:
  assumes "environment c = None \<or> social c = None \<or> governance c = None"
  shows "Data_Source (make_esg_row c p) = ''Partially estimated values (some components not available)''
     \<and> E_Score (make_esg_row c p) =
          (case environment c of Some v \<Rightarrow> Some v | None \<Rightarrow> map_option (\<lambda>s. s * (33 / 100)) (esgScore (make_esg_row c p)))
     \<and> S_Score (make_esg_row c p) =
          (case social c of Some v \<Rightarrow> Some v | None \<Rightarrow> map_option (\<lambda>s. s * (33 / 100)) (esgScore (make_esg_row c p)))
     \<and> G_Score (make_esg_row c p) =
          (case governance c of Some v \<Rightarrow> Some v | None \<Rightarrow> map_option (\<lambda>s. s * (33 / 100)) (esgScore (make_esg_row c p)))"
proof -
  have s: "esgScore (make_esg_row c p) = snd p" by (simp add: make_esg_row_def)
  from assms have n: "\<not> all_present c" by (auto simp: all_present_def)
  show ?thesis unfolding s using n
    by (simp add: make_esg_row_def data_source_def component_or_estimate_def)
qed

text \<open>
  Claim C5. In every row of the ESG sheet: when the environmental, social and
  governance scores are all present, the row's data source (and the note of the sheet)
  says current values and the three columns hold those scores; when one is missing, it
  says partially estimated values, and each missing component is 0.33 of the row's total
  score, each present one is kept.
\<close>

theorem esg_quality_tag:
  assumes "fetch_esg_data src w ''ESG Scores'' = Some (Esg rows note)"
    and "r \<in> set rows"
  shows "(environment (snd (collect_esg src)) \<noteq> None \<and> social (snd (collect_esg src)) \<noteq> None
            \<and> governance (snd (collect_esg src)) \<noteq> None \<longrightarrow>
          Data_Source r = ''Current values (historical components not available)''
          \<and> note = ''Note: Current values (historical components not available)''
          \<and> E_Score r = environment (snd (collect_esg src))
          \<and> S_Score r = social (snd (collect_esg src))
          \<and> G_Score r = governance (snd (collect_esg src)))
       \<and> (environment (snd (collect_esg src)) = None \<or> social (snd (collect_esg src)) = None
            \<or> governance (snd (collect_esg src)) = None \<longrightarrow>
          Data_Source r = ''Partially estimated values (some components not available)''
          \<and> note = ''Note: Partially estimated values (some components not available)''
          \<and> E_Score r = (case environment (snd (collect_esg src)) of Some v \<Rightarrow> Some v
                           | None \<Rightarrow> map_option (\<lambda>s. s * (33 / 100)) (esgScore r))
          \<and> S_Score r = (case social (snd (collect_esg src)) of Some v \<Rightarrow> Some v
                           | None \<Rightarrow> map_option (\<lambda>s. s * (33 / 100)) (esgScore r))
          \<and> G_Score r = (case governance (snd (collect_esg src)) of Some v \<Rightarrow> Some v
                           | None \<Rightarrow> map_option (\<lambda>s. s * (33 / 100)) (esgScore r)))"
proof -
  let ?c = "snd (collect_esg src)"
  from esg_sheet_rows[OF assms(1)] obtain series where
    rws: "rows = esg_frame ?c series" and nt: "note = ''Note: '' @ data_source ?c"
    by blast
  from assms(2) rws obtain p where r: "r = make_esg_row ?c p"
    by (auto simp: esg_frame_def)
  show ?thesis
  proof (intro conjI impI)
    assume a: "environment ?c \<noteq> None \<and> social ?c \<noteq> None \<and> governance ?c \<noteq> None"
    then have o: "environment ?c \<noteq> None" "social ?c \<noteq> None" "governance ?c \<noteq> None" by simp_all
    from make_esg_row_observed[OF o, of p]
    show "Data_Source r = ''Current values (historical components not available)''"
      "E_Score r = environment ?c" "S_Score r = social ?c" "G_Score r = governance ?c"
      unfolding r by blast+
    from a nt show "note = ''Note: Current values (historical components not available)''"
      by (simp add: data_source_def all_present_def)
  next
    assume a: "environment ?c = None \<or> social ?c = None \<or> governance ?c = None"
    from make_esg_row_estimated[OF a, of p]
    show "Data_Source r = ''Partially estimated values (some components not available)''"
      "E_Score r = (case environment ?c of Some v \<Rightarrow> Some v
                           | None \<Rightarrow> map_option (\<lambda>s. s * (33 / 100)) (esgScore r))"
      "S_Score r = (case social ?c of Some v \<Rightarrow> Some v
                           | None \<Rightarrow> map_option (\<lambda>s. s * (33 / 100)) (esgScore r))"
      "G_Score r = (case governance ?c of Some v \<Rightarrow> Some v
                           | None \<Rightarrow> map_option (\<lambda>s. s * (33 / 100)) (esgScore r))"
      unfolding r by blast+
    from a nt show "note = ''Note: Partially estimated values (some components not available)''"
      by (auto simp add: data_source_def all_present_def)
  qed
qed

theorem esg_quality_tag_witness:
  "(\<exists>rows note. fetch_esg_data esg_example new_writer ''ESG Scores'' = Some (Esg rows note)
      \<and> esg_example_row \<in> set rows)
   \<and> social (snd (collect_esg esg_example)) = None
   \<and> Data_Source esg_example_row = ''Partially estimated values (some components not available)''
   \<and> S_Score esg_example_row = map_option (\<lambda>s. s * (33 / 100)) (esgScore esg_example_row)"
proof -
  obtain rs nt where f: "fetch_esg_data esg_example new_writer ''ESG Scores'' = Some (Esg rs nt)"
    and m: "esg_example_row \<in> set rs"
  proof
    show "fetch_esg_data esg_example new_writer ''ESG Scores'' =
        Some (Esg [esg_example_row, \<lparr>date = ''13-09-2020'', timestamp = 1600000000, esgScore = Some 30,
           E_Score = Some 5, S_Score = Some (99 / 10), G_Score = Some (99 / 10),
           Data_Source = ''Partially estimated values (some components not available)''\<rparr>]
          ''Note: Partially estimated values (some components not available)'')"
      by code_simp
    show "esg_example_row \<in> set [esg_example_row, \<lparr>date = ''13-09-2020'', timestamp = 1600000000, esgScore = Some 30,
           E_Score = Some 5, S_Score = Some (99 / 10), G_Score = Some (99 / 10),
           Data_Source = ''Partially estimated values (some components not available)''\<rparr>]"
      by simp
  qed
  have n: "social (snd (collect_esg esg_example)) = None" by code_simp
  from esg_quality_tag [OF f m] n
  have "Data_Source esg_example_row = ''Partially estimated values (some components not available)''
     \<and> S_Score esg_example_row = map_option (\<lambda>s. s * (33 / 100)) (esgScore esg_example_row)"
    by simp
  with f m n show ?thesis by blast
qed

subsection \<open>Statement tables\<close>

lemma length_pad_row: "length (pad_row n row) = max n (length row)"
  by (simp add: pad_row_def)

lemma length_metric_row: "length (metric_row dates history m) = Suc (length dates)"
  by (cases m) (simp add: metric_row_def length_pad_row)

lemma json_statement_rows:
  assumes "process_json_statement ms tz history = Some t" and "row \<in> set t"
  shows "length row = Suc (length (header_dates tz history))"
  using assms
  by (auto simp: process_json_statement_def Let_def length_metric_row split: if_splits)

lemma json_statement_header:
  assumes "process_json_statement ms tz history = Some t"
  shows "hd t = ''Breakdown'' # header_dates tz history"
  using assms by (auto simp: process_json_statement_def Let_def split: if_splits)

lemma yfinance_rows:
  assumes "row \<in> set (process_yfinance_data df)"
  shows "length row = Suc (length (index df))"
  using assms by (auto simp: process_yfinance_data_def)

lemma yfinance_header: "hd (process_yfinance_data df) = ''Breakdown'' # map strftime_dmy (index df)"
  by (simp add: process_yfinance_data_def)

lemma parse_table_rows:
  assumes "parse_statement_table h = Some t"
  shows "\<exists>body. tbody h = Some body \<and> tl t = [r \<leftarrow> map (map strip) body. 1 < length r]"
  using assms
  by (auto simp: parse_statement_table_def split: option.splits if_splits)

lemma missing_entry_empty: "entries p k = None \<Longrightarrow> metric_cell k p = []"
  by (simp add: metric_cell_def)


lemma length_sort_yearly:
  assumes "sort_yearly yearly = Inr items"
  shows "length items = length yearly"
  using assms by (auto simp: sort_yearly_def length_sorted_desc sorted_desc_def split: if_splits)

lemma length_map_filter_all:
  "list_all (\<lambda>x. f x \<noteq> None) xs \<Longrightarrow> length (List.map_filter f xs) = length xs"
  by (induction xs) (auto simp: List.map_filter_def)

lemma chart_rows:
  assumes "process_financials_chart yearly = Inr (Some t)"
    and "list_all (\<lambda>x. item_date x \<noteq> None) yearly"
    and "row \<in> set t"
  shows "length row = length (hd t)"
proof -
  from assms(1) have ne: "yearly \<noteq> []"
    by (auto simp: process_financials_chart_def)
  let ?dates = "rev (sort (map chart_date_text (List.map_filter item_date yearly)))"
  have ld: "length ?dates = length yearly"
    using length_map_filter_all[OF assms(2)] by simp
  from assms(1) ne obtain items where it: "sort_yearly yearly = Inr items"
    and t: "t = [''Breakdown'' # ?dates,
                 pad_row (Suc (length ?dates)) (''Revenue'' # map (\<lambda>x. the (chart_cell (revenue x))) items),
                 [''Operating Expenses'', []] @ replicate (length ?dates - 1) [],
                 pad_row (Suc (length ?dates)) (''Net Income'' # map (\<lambda>x. the (chart_cell (earnings x))) items)]"
    by (auto simp: process_financials_chart_def Let_def split: sum.splits if_splits)
  have li: "length items = length yearly" using it by (rule length_sort_yearly)
  from ne have pos: "0 < length yearly" by simp
  from assms(3) show ?thesis
    unfolding t using ld li pos by (auto simp: length_pad_row)
qed

text \<open>
  Claim C2, amended. For each of the three statements, the table built from the embedded
  statement history has the header \<open>Breakdown\<close> followed by the period dates, and every
  row of it has exactly one cell more than there are dates; a metric that a period does
  not have is an empty string there. The table built by the client-library tier has one
  cell per period after the label in every row as well; a missing number is printed as
  \<open>nan\<close> there. The table built from the earnings chart has rows as long as its header
  when every yearly item carries a date. The HTML tier aligns nothing: after its header
  it copies the rows of the page's table body that have at least two cells, each with the
  cells it has.
\<close>

theorem statement_rows_aligned:
  "(\<forall>f \<in> {process_json_income_data, process_json_balance_data, process_json_cash_flow_data}.
      \<forall>t. f tz history = Some t \<longrightarrow>
        hd t = ''Breakdown'' # header_dates tz history
        \<and> (\<forall>row \<in> set t. length row = Suc (length (header_dates tz history))))
   \<and> (\<forall>p k. entries p k = None \<longrightarrow> metric_cell k p = [])
   \<and> hd (process_yfinance_data df) = ''Breakdown'' # map strftime_dmy (index df)
   \<and> (\<forall>row \<in> set (process_yfinance_data df). length row = Suc (length (index df)))
   \<and> format_cell CNaN = ''nan''
   \<and> (\<forall>t. process_financials_chart yearly = Inr (Some t) \<and> list_all (\<lambda>x. item_date x \<noteq> None) yearly \<longrightarrow>
        (\<forall>row \<in> set t. length row = length (hd t)))
   \<and> (\<forall>t. parse_statement_table h = Some t \<longrightarrow>
        (\<exists>body. tbody h = Some body \<and> tl t = [r \<leftarrow> map (map strip) body. 1 < length r]))"
proof -
  have a: "\<forall>f \<in> {process_json_income_data, process_json_balance_data, process_json_cash_flow_data}.
      \<forall>t. f tz history = Some t \<longrightarrow>
        hd t = ''Breakdown'' # header_dates tz history
        \<and> (\<forall>row \<in> set t. length row = Suc (length (header_dates tz history)))"
    unfolding process_json_income_data_def process_json_balance_data_def process_json_cash_flow_data_def
    using json_statement_rows json_statement_header by blast
  have b: "\<forall>p k. entries p k = None \<longrightarrow> metric_cell k p = []"
    using missing_entry_empty by blast
  have c: "\<forall>row \<in> set (process_yfinance_data df). length row = Suc (length (index df))"
    using yfinance_rows by blast
  have d: "format_cell CNaN = ''nan''" by (simp add: format_cell_def)
  have e: "\<forall>t. process_financials_chart yearly = Inr (Some t) \<and> list_all (\<lambda>x. item_date x \<noteq> None) yearly \<longrightarrow>
        (\<forall>row \<in> set t. length row = length (hd t))"
    using chart_rows by blast
  have f: "\<forall>t. parse_statement_table h = Some t \<longrightarrow>
        (\<exists>body. tbody h = Some body \<and> tl t = [r \<leftarrow> map (map strip) body. 1 < length r])"
    using parse_table_rows by blast
  from a b yfinance_header c d e f show ?thesis by blast
qed

theorem statement_rows_aligned_witness:
  "\<exists>t. process_json_income_data utc aapl_income_history = Some t
       \<and> length t = 25 \<and> list_all (\<lambda>row. length row = 5) t"
proof -
  have ne: "aapl_income_history \<noteq> []" by (simp add: aapl_income_history_def)
  then obtain t where t: "process_json_income_data utc aapl_income_history = Some t"
    by (simp add: process_json_income_data_def process_json_statement_def Let_def)
  have m: "process_json_income_data \<in> {process_json_income_data, process_json_balance_data, process_json_cash_flow_data}"
    by simp
  from statement_rows_aligned [of utc aapl_income_history] m t
  have r: "\<forall>row \<in> set t. length row = Suc (length (header_dates utc aapl_income_history))"
    by blast
  have l: "length (header_dates utc aapl_income_history) = 4"
    by (simp add: header_dates_def aapl_income_history_def)
  have n: "length t = 25" using t ne
    by (auto simp: process_json_income_data_def process_json_statement_def Let_def income_metrics_def)
  from r l have "list_all (\<lambda>row. length row = 5) t" by (simp add: list_all_iff)
  with t n show ?thesis by blast
qed

text \<open>
  Claim C2, as the specification states it, fails in the HTML tier: a body row with two
  cells under a header with two dates is written as it is.
\<close>

theorem statement_rows_counterexample:
  "scrape_income_statement utc html_sources new_writer ''Income Statement'' =
     Some (Rows [[''Breakdown'', ''31-12-2023'', ''31-12-2022''], [''Total Revenue'', ''383.29B'']])
   \<and> length [''Total Revenue'', ''383.29B''] \<noteq> length [''31-12-2023'', ''31-12-2022''] + 1"
  by code_simp

text \<open>
  Claim C7 on a failing input: four fiscal years of an income statement history, as
  the provider sends them. The header dates are sorted as \<open>dd-mm-yyyy\<close> texts, so the
  header reads 2023, 2020, 2021, 2022, while the values under it are in the order of the
  instants: 2023, 2022, 2021, 2020.
\<close>

theorem statement_header_sorted_as_text:
  "header_dates utc aapl_income_history = [''30-09-2023'', ''26-09-2020'', ''25-09-2021'', ''24-09-2022'']
   \<and> map (date_label utc) (sorted_desc raw_end aapl_income_history) =
       [''30-09-2023'', ''24-09-2022'', ''25-09-2021'', ''26-09-2020'']
   \<and> map_option (take 2) (process_json_income_data utc aapl_income_history) =
     Some [[''Breakdown'', ''30-09-2023'', ''26-09-2020'', ''25-09-2021'', ''24-09-2022''],
           [''Revenue'', ''383.29B'', ''394.33B'', ''365.82B'', ''274.52B'']]"
  by code_simp

subsection \<open>Placeholders in the company summary\<close>
















subsection \<open>The peer list\<close>




lemma add_json_peer_cases:
  "add_json_peer acc p = acc \<or> (\<exists>e. add_json_peer acc p = acc @ [e] \<and> \<not> non_company (Ticker e))"
  by (auto simp: add_json_peer_def Let_def split: option.splits)

lemma json_peers_invariant:
  assumes "\<forall>e \<in> set acc. \<not> non_company (Ticker e)"
  shows "\<forall>e \<in> set (foldl add_json_peer acc peers). \<not> non_company (Ticker e)"
  using assms
proof (induction peers arbitrary: acc)
  case Nil
  then show ?case by simp
next
  case (Cons p peers)
  from add_json_peer_cases[of acc p] Cons.prems
  have a: "\<forall>e \<in> set (add_json_peer acc p). \<not> non_company (Ticker e)" by auto
  show ?case using Cons.IH[OF a] by simp
qed

lemma add_script_invariant:
  assumes "\<forall>e \<in> set acc. \<not> non_company (Ticker e)"
  shows "\<forall>e \<in> set (add_script acc sc). \<not> non_company (Ticker e)"
  using assms json_peers_invariant
  by (auto simp: add_script_def split: list.splits json_match.splits)

lemma scripts_invariant:
  assumes "\<forall>e \<in> set acc. \<not> non_company (Ticker e)"
  shows "\<forall>e \<in> set (foldl add_script acc scripts). \<not> non_company (Ticker e)"
  using assms
proof (induction scripts arbitrary: acc)
  case Nil
  then show ?case by simp
next
  case (Cons sc scripts)
  show ?case using Cons.IH[OF add_script_invariant[OF Cons.prems]] by simp
qed














subsection \<open>Failures stay inside their category\<close>








































end
